theory Spec2Isabelle
  imports Main "HOL-Library.Sublist"
begin

section \<open>gitbackup: listing repositories and mirroring them (lib/backup.go)\<close>

text \<open>
  The package backs up every git repository of a target (a GitHub user or organization,
  a BitBucket user). \<open>BackupTarget\<close> asks the provider for the list of repositories,
  \<open>getGitHubRepoList\<close> and \<open>getBitBucketRepoList\<close> turn the provider's JSON answer into
  \<open>repository\<close> values with credentials spliced into the clone URL, and
  \<open>backupRepository\<close> clones or fetches one repository.

  The functions are embedded as they are written. What they do to the outside (HTTP
  requests, \<open>os.Stat\<close>, the \<open>git\<close> process, standard output, the log) is explicit: a
  \<open>world\<close> record is passed through, the network and the git process are parameters.
\<close>

subsection \<open>Strings\<close>

definition dq :: char where
  "dq = CHR 0x22"

text \<open>
  \<open>strings.Replace(s, old, new, 1)\<close>: the first occurrence of \<open>old\<close> in \<open>s\<close>, wherever it
  is, is replaced by \<open>new\<close>; without an occurrence \<open>s\<close> is returned as it is. An empty
  \<open>old\<close> matches at the beginning of \<open>s\<close>.
\<close>

fun strings_Replace1 :: "string \<Rightarrow> string \<Rightarrow> string \<Rightarrow> string" where
  "strings_Replace1 [] old new = (if old = [] then new else [])"
| "strings_Replace1 (c # cs) old new =
     (if prefix old (c # cs) then new @ drop (length old) (c # cs)
      else c # strings_Replace1 cs old new)"

text \<open>\<open>strings.Join(elems, sep)\<close>.\<close>

fun strings_Join :: "string list \<Rightarrow> string \<Rightarrow> string" where
  "strings_Join [] sep = []"
| "strings_Join [e] sep = e"
| "strings_Join (e # es) sep = e @ sep @ strings_Join es sep"

subsection \<open>Paths: \<open>filepath.Join\<close> on a system whose separator is the slash\<close>

text \<open>
  \<open>filepath.Join\<close> drops the leading empty elements, joins the rest with the separator
  and cleans the result with \<open>filepath.Clean\<close>. \<open>Clean\<close> reads the path element by
  element: an empty element and \<open>.\<close> are dropped; \<open>..\<close> removes the element written last,
  unless there is none (then it is dropped in a rooted path and kept in a relative one) or
  the last one is itself a kept \<open>..\<close>; any other element is written. A rooted path keeps
  its leading slash, and an empty result is \<open>.\<close>.
\<close>

fun split_slash_aux :: "string \<Rightarrow> string \<Rightarrow> string list" where
  "split_slash_aux cur [] = [rev cur]"
| "split_slash_aux cur (c # cs) =
     (if c = CHR ''/'' then rev cur # split_slash_aux [] cs
      else split_slash_aux (c # cur) cs)"

definition split_slash :: "string \<Rightarrow> string list" where
  "split_slash p = split_slash_aux [] p"

fun clean_elems :: "bool \<Rightarrow> string list \<Rightarrow> string list \<Rightarrow> string list" where
  "clean_elems rooted out [] = out"
| "clean_elems rooted out (e # es) =
     (if e = [] then clean_elems rooted out es
      else if e = ''.'' then clean_elems rooted out es
      else if e = ''..'' then
        (if out \<noteq> [] \<and> last out \<noteq> ''..'' then clean_elems rooted (butlast out) es
         else if \<not> rooted then clean_elems rooted (out @ [''..'']) es
         else clean_elems rooted out es)
      else clean_elems rooted (out @ [e]) es)"

definition filepath_Clean :: "string \<Rightarrow> string" where
  "filepath_Clean p =
     (if p = [] then ''.''
      else
        (let rooted = (hd p = CHR ''/'');
             out = clean_elems rooted [] (split_slash p);
             res = (if rooted then ''/'' else []) @ strings_Join out ''/''
         in if res = [] then ''.'' else res))"

fun filepath_Join :: "string list \<Rightarrow> string" where
  "filepath_Join [] = []"
| "filepath_Join (e # es) =
     (if e = [] then filepath_Join es else filepath_Clean (strings_Join (e # es) ''/''))"

subsection \<open>JSON documents and \<open>json.Unmarshal\<close> at the types the package uses\<close>

text \<open>
  A response body is represented by the JSON document it holds. An object keeps its
  members in the order of the text; decoding an object into a Go map lets the last member
  of a name win, which is what \<open>lookup\<close> returns.
\<close>

datatype json =
    JNull
  | JBool bool
  | JNumber string
  | JString string
  | JArray "json list"
  | JObject "(string \<times> json) list"

definition lookup :: "(string \<times> 'a) list \<Rightarrow> string \<Rightarrow> 'a option" where
  "lookup m k = map_of (rev m) k"

text \<open>
  Indexing a \<open>map[string]string\<close>: a missing key gives the empty string. The targets of
  the configuration are such maps.
\<close>

definition index_str :: "(string \<Rightarrow> string option) \<Rightarrow> string \<Rightarrow> string" where
  "index_str m k = (case m k of None \<Rightarrow> [] | Some v \<Rightarrow> v)"

text \<open>
  \<open>json.Unmarshal\<close> into a map with string keys (\<open>map[string]json.RawMessage\<close>,
  \<open>map[string]interface{}\<close>): an object gives its members, \<open>null\<close> leaves the map nil,
  anything else is an error. The message is a \<open>json option\<close>: \<open>None\<close> is the empty
  \<open>json.RawMessage\<close> that indexing a map at a missing key gives, or a body that is not a
  JSON text, and \<open>json.Unmarshal\<close> fails on it.
\<close>

fun unmarshal_map_value :: "json \<Rightarrow> (string \<times> json) list option" where
  "unmarshal_map_value JNull = Some []"
| "unmarshal_map_value (JObject kvs) = Some kvs"
| "unmarshal_map_value _ = None"

fun unmarshal_map :: "json option \<Rightarrow> (string \<times> json) list option" where
  "unmarshal_map None = None"
| "unmarshal_map (Some j) = unmarshal_map_value j"

text \<open>Into a slice of such maps: an array of objects or nulls, or \<open>null\<close> (a nil slice).\<close>

fun unmarshal_map_slice :: "json option \<Rightarrow> (string \<times> json) list list option" where
  "unmarshal_map_slice None = None"
| "unmarshal_map_slice (Some JNull) = Some []"
| "unmarshal_map_slice (Some (JArray xs)) = those (map unmarshal_map_value xs)"
| "unmarshal_map_slice (Some _) = None"

text \<open>Into a \<open>string\<close>: a JSON string, or \<open>null\<close>, which leaves the variable empty.\<close>

fun unmarshal_string_value :: "json \<Rightarrow> string option" where
  "unmarshal_string_value JNull = Some []"
| "unmarshal_string_value (JString s) = Some s"
| "unmarshal_string_value _ = None"

fun unmarshal_string :: "json option \<Rightarrow> string option" where
  "unmarshal_string None = None"
| "unmarshal_string (Some j) = unmarshal_string_value j"

text \<open>Into a \<open>[]map[string]string\<close>.\<close>

fun unmarshal_string_member :: "string \<times> json \<Rightarrow> (string \<times> string) option" where
  "unmarshal_string_member (k, v) = map_option (Pair k) (unmarshal_string_value v)"

fun unmarshal_string_map_value :: "json \<Rightarrow> (string \<times> string) list option" where
  "unmarshal_string_map_value JNull = Some []"
| "unmarshal_string_map_value (JObject kvs) = those (map unmarshal_string_member kvs)"
| "unmarshal_string_map_value _ = None"

fun unmarshal_string_map_slice :: "json option \<Rightarrow> (string \<times> string) list list option" where
  "unmarshal_string_map_slice None = None"
| "unmarshal_string_map_slice (Some JNull) = Some []"
| "unmarshal_string_map_slice (Some (JArray xs)) = those (map unmarshal_string_map_value xs)"
| "unmarshal_string_map_slice (Some _) = None"

text \<open>
  The type assertion \<open>v.(string)\<close> with its second result ignored, on a member of a
  \<open>map[string]interface{}\<close>: the string, or the empty string when the member is missing
  or is not a string.
\<close>

fun assert_string :: "json option \<Rightarrow> string" where
  "assert_string (Some (JString s)) = s"
| "assert_string _ = []"

subsection \<open>The data of the package and the outside world\<close>

record repository =
  name :: string
  cloneURL :: string

type_synonym target = "string \<Rightarrow> string option"

datatype error =
    Failed_connect string
  | Failed_retrieve string
  | Failed_parse
  | No_https_url "(string \<times> string) list list"
  | Not_recognized string

text \<open>
  The text \<open>fmt.Errorf\<close> gives an error, where backup.go alone determines it; the other
  errors end with a rendering made by the standard library (the decoder's own error, a
  slice of maps printed with \<open>%s\<close>), which is not modelled.
\<close>

fun message :: "error \<Rightarrow> string option" where
  "message (Failed_connect e) =
     Some (''Failed to connect with the source to retrieve the list of repositories: '' @ e)"
| "message (Failed_retrieve e) = Some (''Failed to retrieve the list of repositories: '' @ e)"
| "message (Not_recognized src) = Some ([dq] @ src @ [dq] @ '' is not a recognized source type'')"
| "message Failed_parse = None"
| "message (No_https_url cloneLinks) = None"

text \<open>
  \<open>http.Get\<close> followed by \<open>ioutil.ReadAll\<close>: the connection fails, the body cannot be
  read, or there is a body; \<open>None\<close> is a body that is not a JSON text.
\<close>

datatype http_result =
    Get_failed string
  | Read_failed string
  | Body "json option"

datatype stat_result = Stat_ok | Stat_not_exist | Stat_error string

record command =
  args :: "string list"
  dir :: string

datatype printed = Println "string list" | Printf string

record world =
  fs :: "string \<Rightarrow> stat_result"
  requests :: "string list"
  commands :: "command list"
  stdout :: "printed list"
  logs :: "string list"

text \<open>
  The git process is a black box: from a command and the file system it gives the
  combined output, the error if it failed, and the file system it leaves.
\<close>

type_synonym git = "command \<Rightarrow> (string \<Rightarrow> stat_result) \<Rightarrow> (string \<times> string option) \<times> (string \<Rightarrow> stat_result)"

definition log_Printf :: "string \<Rightarrow> world \<Rightarrow> world" where
  "log_Printf s w = w\<lparr>logs := logs w @ [s]\<rparr>"

definition fmt_Println :: "string list \<Rightarrow> world \<Rightarrow> world" where
  "fmt_Println xs w = w\<lparr>stdout := stdout w @ [Println xs]\<rparr>"

definition fmt_Printf :: "string \<Rightarrow> world \<Rightarrow> world" where
  "fmt_Printf f w = w\<lparr>stdout := stdout w @ [Printf f]\<rparr>"

definition http_Get :: "(string \<Rightarrow> http_result) \<Rightarrow> string \<Rightarrow> world \<Rightarrow> http_result \<times> world" where
  "http_Get net url w = (net url, w\<lparr>requests := requests w @ [url]\<rparr>)"

definition run :: "git \<Rightarrow> command \<Rightarrow> world \<Rightarrow> (string \<times> string option) \<times> world" where
  "run g cmd w =
     (case g cmd (fs w) of
        (res, fs') \<Rightarrow> (res, w\<lparr>fs := fs', commands := commands w @ [cmd]\<rparr>))"

subsection \<open>getGitHubRepoList\<close>

definition github_requestURL :: "target \<Rightarrow> string" where
  "github_requestURL t =
     ''https://api.github.com/'' @ index_str t ''type'' @ ''/'' @ index_str t ''entity''
       @ ''/repos?access_token='' @ index_str t ''token'' @ ''&per_page=200''"

text \<open>The credentials are put into the clone URL (lines 92 to 97).\<close>

definition github_embed :: "target \<Rightarrow> string \<Rightarrow> string" where
  "github_embed t url =
     strings_Replace1 url ''https://''
       (''https://'' @ index_str t ''entity'' @ '':'' @ index_str t ''token'' @ ''@'')"

text \<open>The body of the loop for one item.\<close>

definition github_repository :: "target \<Rightarrow> (string \<times> json) list \<Rightarrow> repository" where
  "github_repository t repo =
     (let repoName = assert_string (lookup repo ''name'');
          url = assert_string (lookup repo ''clone_url'')
      in \<lparr>name = repoName, cloneURL = github_embed t url\<rparr>)"

text \<open>The loop \<open>for i, repo := range dat\<close>, writing \<open>repoList[i]\<close>.\<close>

fun github_loop :: "target \<Rightarrow> nat \<Rightarrow> (string \<times> json) list list \<Rightarrow> repository list \<Rightarrow> repository list" where
  "github_loop t i [] repoList = repoList"
| "github_loop t i (repo # rest) repoList =
     github_loop t (Suc i) rest (repoList[i := github_repository t repo])"

definition zero_repository :: repository where
  "zero_repository = \<lparr>name = [], cloneURL = []\<rparr>"

definition getGitHubRepoList ::
  "(string \<Rightarrow> http_result) \<Rightarrow> target \<Rightarrow> string \<Rightarrow> world \<Rightarrow> (repository list \<times> error option) \<times> world" where
  "getGitHubRepoList net t backupDirectory w =
     (case http_Get net (github_requestURL t) w of
        (Get_failed e, w1) \<Rightarrow> (([], Some (Failed_connect e)), w1)
      | (Read_failed e, w1) \<Rightarrow> (([], Some (Failed_retrieve e)), w1)
      | (Body contents, w1) \<Rightarrow>
          (case unmarshal_map_slice contents of
             None \<Rightarrow> (([], Some Failed_parse), w1)
           | Some dat \<Rightarrow>
               ((github_loop t 0 dat (replicate (length dat) zero_repository), None), w1)))"

subsection \<open>getBitBucketRepoList\<close>

definition bitbucket_requestURL :: "target \<Rightarrow> string" where
  "bitbucket_requestURL t =
     ''https://'' @ index_str t ''entity'' @ '':'' @ index_str t ''password''
       @ ''@bitbucket.org/api/2.0/repositories/'' @ index_str t ''entity''
       @ ''?page=1&pagelen=100''"

text \<open>
  The inner loop over the clone links: every link named \<open>https\<close> overwrites \<open>cloneURL\<close>,
  so the last one stays.
\<close>

fun find_https :: "(string \<times> string) list list \<Rightarrow> string \<Rightarrow> string" where
  "find_https [] url = url"
| "find_https (link # links) url =
     (if index_str (lookup link) ''name'' = ''https''
      then find_https links (index_str (lookup link) ''href'')
      else find_https links url)"

text \<open>The credentials are put into the clone URL (lines 167 to 172).\<close>

definition bitbucket_embed :: "target \<Rightarrow> string \<Rightarrow> string" where
  "bitbucket_embed t url =
     strings_Replace1 url
       (''https://'' @ index_str t ''entity'' @ ''@'')
       (''https://'' @ index_str t ''entity'' @ '':'' @ index_str t ''password'' @ ''@'')"

text \<open>The body of the loop for one item: the error it returns with, or the repository.\<close>

definition bitbucket_repository :: "target \<Rightarrow> (string \<times> json) list \<Rightarrow> error + repository" where
  "bitbucket_repository t repo =
     (case unmarshal_string (lookup repo ''name'') of
        None \<Rightarrow> Inl Failed_parse
      | Some repoName \<Rightarrow>
     (case unmarshal_map (lookup repo ''links'') of
        None \<Rightarrow> Inl Failed_parse
      | Some links \<Rightarrow>
     (case unmarshal_string_map_slice (lookup links ''clone'') of
        None \<Rightarrow> Inl Failed_parse
      | Some cloneLinks \<Rightarrow>
          (let url = find_https cloneLinks [] in
           if url = [] then Inl (No_https_url cloneLinks)
           else Inr \<lparr>name = repoName, cloneURL = bitbucket_embed t url\<rparr>))))"

fun bitbucket_loop ::
  "target \<Rightarrow> nat \<Rightarrow> (string \<times> json) list list \<Rightarrow> repository list \<Rightarrow> repository list \<times> error option" where
  "bitbucket_loop t i [] repoList = (repoList, None)"
| "bitbucket_loop t i (repo # rest) repoList =
     (case bitbucket_repository t repo of
        Inl e \<Rightarrow> ([], Some e)
      | Inr r \<Rightarrow> bitbucket_loop t (Suc i) rest (repoList[i := r]))"

definition getBitBucketRepoList ::
  "(string \<Rightarrow> http_result) \<Rightarrow> target \<Rightarrow> string \<Rightarrow> world \<Rightarrow> (repository list \<times> error option) \<times> world" where
  "getBitBucketRepoList net t backupDirectory w =
     (case http_Get net (bitbucket_requestURL t) w of
        (Get_failed e, w1) \<Rightarrow> (([], Some (Failed_connect e)), w1)
      | (Read_failed e, w1) \<Rightarrow> (([], Some (Failed_retrieve e)), w1)
      | (Body contents, w1) \<Rightarrow>
          (case unmarshal_map contents of
             None \<Rightarrow> (([], Some Failed_parse), w1)
           | Some metadata \<Rightarrow>
          (case unmarshal_map_slice (lookup metadata ''values'') of
             None \<Rightarrow> (([], Some Failed_parse), w1)
           | Some data \<Rightarrow>
               (bitbucket_loop t 0 data (replicate (length data) zero_repository), w1))))"

subsection \<open>backupRepository\<close>

definition clone_command :: "string \<Rightarrow> string \<Rightarrow> command" where
  "clone_command url cloneDirectory =
     \<lparr>args = [''git'', ''clone'', ''--mirror'', url, cloneDirectory], dir = []\<rparr>"

definition fetch_command :: "string \<Rightarrow> string \<Rightarrow> command" where
  "fetch_command url cloneDirectory =
     \<lparr>args = [''git'', ''fetch'', ''-p'', url], dir = cloneDirectory\<rparr>"

text \<open>What is printed after the process has ended.\<close>

definition report :: "string \<Rightarrow> string \<Rightarrow> string \<times> string option \<Rightarrow> world \<Rightarrow> world" where
  "report failed done res w =
     (case res of
        (cmdOut, Some e) \<Rightarrow> fmt_Println [failed, e] w
      | (cmdOut, None) \<Rightarrow>
          (let w1 = fmt_Println [done] w
           in if length cmdOut > 0 then fmt_Printf cmdOut w1 else w1))"

definition backupRepository :: "git \<Rightarrow> string \<Rightarrow> string \<Rightarrow> string \<Rightarrow> string \<Rightarrow> world \<Rightarrow> world" where
  "backupRepository g targetName repoName url backupDirectory w =
     (let cloneDirectory = filepath_Join [backupDirectory, targetName, repoName];
          w1 = fmt_Println [''#> '' @ repoName] w;
          w2 = log_Printf (''Backing up repo '' @ [dq] @ repoName @ [dq]) w1
      in if fs w2 cloneDirectory = Stat_not_exist then
           (let w3 = log_Printf (''Cloning '' @ url @ '' to '' @ cloneDirectory) w2
            in case run g (clone_command url cloneDirectory) w3 of
                 (res, w4) \<Rightarrow>
                   report ''Error cloning the repository:'' ''Cloned repository.'' res w4)
         else
           (let w3 = log_Printf (''Pulling git repo in '' @ cloneDirectory) w2
            in case run g (fetch_command url cloneDirectory) w3 of
                 (res, w4) \<Rightarrow>
                   report ''Error pulling in the repository:''
                     ''Pulled latest updates in the repository.'' res w4))"

subsection \<open>BackupTarget\<close>

fun backup_each :: "git \<Rightarrow> target \<Rightarrow> string \<Rightarrow> repository list \<Rightarrow> world \<Rightarrow> world" where
  "backup_each g t backupDirectory [] w = w"
| "backup_each g t backupDirectory (repo # rest) w =
     backup_each g t backupDirectory rest
       (backupRepository g (index_str t ''name'') (name repo) (cloneURL repo) backupDirectory w)"

definition BackupTarget ::
  "(string \<Rightarrow> http_result) \<Rightarrow> git \<Rightarrow> target \<Rightarrow> string \<Rightarrow> world \<Rightarrow> error option \<times> world" where
  "BackupTarget net g t backupDirectory w =
     (let w0 = log_Printf (''Backing up target '' @ [dq] @ index_str t ''name'' @ [dq]) w;
          listed =
            (if index_str t ''source'' = ''github'' then getGitHubRepoList net t backupDirectory w0
             else if index_str t ''source'' = ''bitbucket'' then
               getBitBucketRepoList net t backupDirectory w0
             else (([], Some (Not_recognized (index_str t ''source''))), w0))
      in case listed of
           ((repoList, Some e), w1) \<Rightarrow> (Some e, w1)
         | ((repoList, None), w1) \<Rightarrow> (None, backup_each g t backupDirectory repoList w1))"

subsection \<open>The scenarios of the specification\<close>

definition acme :: target where
  "acme = [''name'' \<mapsto> ''acme'', ''source'' \<mapsto> ''github'', ''type'' \<mapsto> ''orgs'',
           ''entity'' \<mapsto> ''acme-co'', ''token'' \<mapsto> ''T'']"

definition infra :: "(string \<times> json) list" where
  "infra = [(''name'', JString ''infra''),
            (''clone_url'', JString ''https://github.com/acme-co/infra.git'')]"

definition bb1 :: target where
  "bb1 = [''name'' \<mapsto> ''bb1'', ''source'' \<mapsto> ''bitbucket'', ''entity'' \<mapsto> ''bbuser'',
          ''password'' \<mapsto> ''P'']"

definition clone_link :: "string \<Rightarrow> string \<Rightarrow> json" where
  "clone_link n h = JObject [(''name'', JString n), (''href'', JString h)]"

definition bitbucket_item :: "string \<Rightarrow> json list \<Rightarrow> json" where
  "bitbucket_item n ls =
     JObject [(''name'', JString n), (''links'', JObject [(''clone'', JArray ls)])]"

definition repoX :: json where
  "repoX = bitbucket_item ''repoX''
             [clone_link ''https'' ''https://bbuser@bitbucket.org/bbuser/repoX.git'']"

text \<open>A network that answers every request with the same document.\<close>

definition answers :: "json \<Rightarrow> string \<Rightarrow> http_result" where
  "answers j url = Body (Some j)"

text \<open>A world without files, in which nothing has happened yet.\<close>

definition nothing_yet :: world where
  "nothing_yet =
     \<lparr>fs = (\<lambda>p. Stat_not_exist), requests = [], commands = [], stdout = [], logs = []\<rparr>"

text \<open>
  A git that always succeeds without output; its clone creates the directory it is given,
  its fetch leaves the file system as it is.
\<close>

definition git_succeeds :: git where
  "git_succeeds cmd files =
     (if take 2 (args cmd) = [''git'', ''clone'']
      then (([], None), files(last (args cmd) := Stat_ok))
      else (([], None), files))"

text \<open>A world in which \<open>os.Stat\<close> fails on every path with an error other than not-exist.\<close>

definition permission_denied :: world where
  "permission_denied =
     \<lparr>fs = (\<lambda>p. Stat_error ''permission denied''), requests = [], commands = [], stdout = [],
      logs = []\<rparr>"

text \<open>A target of a source the package does not know.\<close>

definition gitlab :: target where
  "gitlab = [''name'' \<mapsto> ''gl'', ''source'' \<mapsto> ''gitlab'', ''entity'' \<mapsto> ''someone'']"

text \<open>Items of a BitBucket listing: one without a clone link named \<open>https\<close>, one without name.\<close>

definition repoY :: json where
  "repoY = bitbucket_item ''repoY'' [clone_link ''ssh'' ''ssh://git@bitbucket.org/bbuser/repoY.git'']"

definition nameless :: json where
  "nameless = JObject [(''links'', JObject [(''clone'',
     JArray [clone_link ''https'' ''https://bbuser@bitbucket.org/bbuser/nameless.git''])])]"

section \<open>Properties\<close>

subsection \<open>Decoding, replacing and iterating\<close>





lemma replace_prefix:
  "prefix old s \<Longrightarrow> strings_Replace1 s old new = new @ drop (length old) s"
  by (cases s) auto

lemma replace_absent:
  "\<not> sublist old s \<Longrightarrow> strings_Replace1 s old new = s"
proof (induction s)
  case Nil
  then show ?case by auto
next
  case (Cons c cs)
  then show ?case
    by (auto simp: sublist_Cons_right)
qed

lemma replace_first:
  "sublist old s \<Longrightarrow>
   \<exists>ps ss. s = ps @ old @ ss \<and> strings_Replace1 s old new = ps @ new @ ss \<and>
     (\<forall>ps' ss'. s = ps' @ old @ ss' \<longrightarrow> length ps \<le> length ps')"
proof (induction s)
  case Nil
  then show ?case by auto
next
  case (Cons c cs)
  show ?case
  proof (cases "prefix old (c # cs)")
    case True
    then obtain ss where "c # cs = old @ ss" by (auto simp: prefix_def)
    then have "c # cs = [] @ old @ ss \<and> strings_Replace1 (c # cs) old new = [] @ new @ ss"
      using replace_prefix [OF True, of new] by simp
    then show ?thesis by (metis le0 list.size(3))
  next
    case False
    with Cons.prems have sub: "sublist old cs" by (auto simp: sublist_Cons_right)
    from Cons.IH [OF sub] obtain ps ss where
      a: "cs = ps @ old @ ss" and b: "strings_Replace1 cs old new = ps @ new @ ss"
      and c: "\<forall>ps' ss'. cs = ps' @ old @ ss' \<longrightarrow> length ps \<le> length ps'" by blast
    have "\<forall>ps' ss'. c # cs = ps' @ old @ ss' \<longrightarrow> length (c # ps) \<le> length ps'"
    proof (intro allI impI)
      fix ps' ss' assume e: "c # cs = ps' @ old @ ss'"
      show "length (c # ps) \<le> length ps'"
      proof (cases ps')
        case Nil
        with e False show ?thesis by (auto simp: prefix_def)
      next
        case (Cons d ds)
        with e have "cs = ds @ old @ ss'" by simp
        with c have "length ps \<le> length ds" by blast
        with Cons show ?thesis by simp
      qed
    qed
    moreover have "c # cs = (c # ps) @ old @ ss" using a by simp
    moreover have "strings_Replace1 (c # cs) old new = (c # ps) @ new @ ss"
      using False b by simp
    ultimately show ?thesis by blast
  qed
qed

lemma find_https_absent:
  "\<forall>l\<in>set links. index_str (lookup l) ''name'' \<noteq> ''https'' \<Longrightarrow> find_https links url = url"
  by (induction links arbitrary: url) simp_all

lemma bitbucket_repository_no_https:
  assumes "unmarshal_map (lookup item ''links'') = Some links"
    and "unmarshal_string_map_slice (lookup links ''clone'') = Some cloneLinks"
    and "\<forall>l\<in>set cloneLinks. index_str (lookup l) ''name'' \<noteq> ''https''"
  shows "\<exists>e. bitbucket_repository t item = Inl e"
  using assms find_https_absent [OF assms(3), of "[]"]
  by (simp add: bitbucket_repository_def split: option.splits)

lemma bitbucket_loop_error:
  "bitbucket_loop t i data rl = (rs, Some e) \<Longrightarrow> rs = []"
  by (induction data arbitrary: i rl) (auto split: sum.splits)

lemma bitbucket_loop_fails:
  "item \<in> set data \<Longrightarrow> bitbucket_repository t item = Inl e0 \<Longrightarrow>
   \<exists>e. bitbucket_loop t i data rl = ([], Some e)"
proof (induction data arbitrary: i rl)
  case Nil
  then show ?case by simp
next
  case (Cons repo rest)
  show ?case
  proof (cases "bitbucket_repository t repo")
    case (Inl e)
    then show ?thesis by simp
  next
    case (Inr r)
    with Cons.prems have "item \<in> set rest" by auto
    from Cons.IH [OF this Cons.prems(2)] Inr show ?thesis by simp
  qed
qed

lemma getBitBucketRepoList_error:
  "fst (getBitBucketRepoList net t d w) = (rs, Some e) \<Longrightarrow> rs = []"
proof (cases "net (bitbucket_requestURL t)")
  case (Body contents)
  assume a: "fst (getBitBucketRepoList net t d w) = (rs, Some e)"
  show ?thesis
  proof (cases "unmarshal_map contents")
    case None
    with a Body show ?thesis by (simp add: getBitBucketRepoList_def http_Get_def)
  next
    case (Some metadata)
    show ?thesis
    proof (cases "unmarshal_map_slice (lookup metadata ''values'')")
      case None
      with a Body Some show ?thesis by (simp add: getBitBucketRepoList_def http_Get_def)
    next
      case (Some data)
      with a Body \<open>unmarshal_map contents = Some metadata\<close>
      have "bitbucket_loop t 0 data (replicate (length data) zero_repository) = (rs, Some e)"
        by (simp add: getBitBucketRepoList_def http_Get_def)
      then show ?thesis by (rule bitbucket_loop_error)
    qed
  qed
qed (simp_all add: getBitBucketRepoList_def http_Get_def)

lemma getBitBucketRepoList_body:
  assumes "net (bitbucket_requestURL t) = Body contents"
    and "unmarshal_map contents = Some metadata"
    and "unmarshal_map_slice (lookup metadata ''values'') = Some data"
  shows "fst (getBitBucketRepoList net t d w) =
         bitbucket_loop t 0 data (replicate (length data) zero_repository)"
  using assms by (simp add: getBitBucketRepoList_def http_Get_def)

lemma getBitBucketRepoList_world:
  "snd (getBitBucketRepoList net t d w) = w\<lparr>requests := requests w @ [bitbucket_requestURL t]\<rparr>"
  by (simp add: getBitBucketRepoList_def http_Get_def split: http_result.splits option.splits)

lemma getGitHubRepoList_world:
  "snd (getGitHubRepoList net t d w) = w\<lparr>requests := requests w @ [github_requestURL t]\<rparr>"
  by (simp add: getGitHubRepoList_def http_Get_def split: http_result.splits option.splits)


lemma log_Printf_fields:
  "fs (log_Printf s w) = fs w" "requests (log_Printf s w) = requests w"
  "commands (log_Printf s w) = commands w" "stdout (log_Printf s w) = stdout w"
  "logs (log_Printf s w) = logs w @ [s]"
  by (simp_all add: log_Printf_def)

lemma fmt_Println_fields:
  "fs (fmt_Println xs w) = fs w" "requests (fmt_Println xs w) = requests w"
  "commands (fmt_Println xs w) = commands w" "logs (fmt_Println xs w) = logs w"
  "stdout (fmt_Println xs w) = stdout w @ [Println xs]"
  by (simp_all add: fmt_Println_def)

lemma fmt_Printf_fields:
  "fs (fmt_Printf f w) = fs w" "requests (fmt_Printf f w) = requests w"
  "commands (fmt_Printf f w) = commands w" "logs (fmt_Printf f w) = logs w"
  "stdout (fmt_Printf f w) = stdout w @ [Printf f]"
  by (simp_all add: fmt_Printf_def)

lemma report_fields:
  "fs (report a b res w) = fs w" "requests (report a b res w) = requests w"
  "commands (report a b res w) = commands w" "logs (report a b res w) = logs w"
  by (simp_all add: report_def Let_def fmt_Println_fields fmt_Printf_fields
      split: prod.splits option.splits)

lemma run_fields:
  "requests (snd (run g cmd w)) = requests w"
  "commands (snd (run g cmd w)) = commands w @ [cmd]"
  "logs (snd (run g cmd w)) = logs w"
  "stdout (snd (run g cmd w)) = stdout w"
  "fs (snd (run g cmd w)) = snd (g cmd (fs w))"
  "fst (run g cmd w) = fst (g cmd (fs w))"
  by (simp_all add: run_def split: prod.splits)

lemma backupRepository_commands:
  "commands (backupRepository g targetName repoName url d w) =
     commands w @
       [if fs w (filepath_Join [d, targetName, repoName]) = Stat_not_exist
        then clone_command url (filepath_Join [d, targetName, repoName])
        else fetch_command url (filepath_Join [d, targetName, repoName])]"
  by (simp add: backupRepository_def Let_def case_prod_beta report_fields run_fields
      log_Printf_fields fmt_Println_fields del: filepath_Join.simps)

lemma backupRepository_requests:
  "requests (backupRepository g targetName repoName url d w) = requests w"
  by (simp add: backupRepository_def Let_def case_prod_beta report_fields run_fields
      log_Printf_fields fmt_Println_fields del: filepath_Join.simps)

lemma backupRepository_logs:
  "logs (backupRepository g targetName repoName url d w) =
     logs w @
       [''Backing up repo '' @ [dq] @ repoName @ [dq],
        if fs w (filepath_Join [d, targetName, repoName]) = Stat_not_exist
        then ''Cloning '' @ url @ '' to '' @ filepath_Join [d, targetName, repoName]
        else ''Pulling git repo in '' @ filepath_Join [d, targetName, repoName]]"
  by (simp add: backupRepository_def Let_def case_prod_beta report_fields run_fields
      log_Printf_fields fmt_Println_fields del: filepath_Join.simps)

lemma backup_each_requests:
  "requests (backup_each g t d rs w) = requests w"
  by (induction rs arbitrary: w) (simp_all add: backupRepository_requests)

lemma join_infra: "filepath_Join [''/backups'', ''acme'', ''infra''] = ''/backups/acme/infra''"
  by (simp add: filepath_Clean_def split_slash_def Let_def)

subsection \<open>Cloning or fetching\<close>



text \<open>
  C10. The test is \<open>os.IsNotExist(err)\<close>: when \<open>os.Stat\<close> fails with any other error,
  \<open>backupRepository\<close> takes the branch of the fetch. No clone is run, the log says that the
  repository is pulled, and what is printed is the report of the fetch: the error of
  \<open>os.Stat\<close> is not reported.
\<close>

theorem sync_fetches_when_stat_fails:
  "fs w (filepath_Join [backupDirectory, targetName, repoName]) = Stat_error e \<Longrightarrow>
   commands (backupRepository g targetName repoName url backupDirectory w) =
     commands w @
       [\<lparr>args = [''git'', ''fetch'', ''-p'', url],
         dir = filepath_Join [backupDirectory, targetName, repoName]\<rparr>] \<and>
   logs (backupRepository g targetName repoName url backupDirectory w) =
     logs w @
       [''Backing up repo '' @ [dq] @ repoName @ [dq],
        ''Pulling git repo in '' @ filepath_Join [backupDirectory, targetName, repoName]] \<and>
   stdout (backupRepository g targetName repoName url backupDirectory w) =
     stdout
       (report ''Error pulling in the repository:'' ''Pulled latest updates in the repository.''
          (fst (g \<lparr>args = [''git'', ''fetch'', ''-p'', url],
                    dir = filepath_Join [backupDirectory, targetName, repoName]\<rparr> (fs w)))
          (w\<lparr>stdout := stdout w @ [Println [''#> '' @ repoName]]\<rparr>))"
  by (simp add: backupRepository_commands backupRepository_logs fetch_command_def
      backupRepository_def Let_def case_prod_beta run_fields report_def fmt_Println_def
      fmt_Printf_def log_Printf_def
      split: option.splits prod.splits del: filepath_Join.simps)

theorem sync_fetches_when_stat_fails_witness:
  "fs permission_denied (filepath_Join [''/backups'', ''acme'', ''infra'']) =
     Stat_error ''permission denied'' \<and>
   commands (backupRepository git_succeeds ''acme'' ''infra'' ''u'' ''/backups'' permission_denied) =
     [\<lparr>args = [''git'', ''fetch'', ''-p'', ''u''], dir = ''/backups/acme/infra''\<rparr>] \<and>
   stdout (backupRepository git_succeeds ''acme'' ''infra'' ''u'' ''/backups'' permission_denied) =
     [Println [''#> infra''], Println [''Pulled latest updates in the repository.'']]"
proof -
  have a: "fs permission_denied (filepath_Join [''/backups'', ''acme'', ''infra'']) =
      Stat_error ''permission denied''"
    by (simp add: permission_denied_def)
  from sync_fetches_when_stat_fails [OF a, of git_succeeds "''u''"] a
  show ?thesis
    by (simp add: join_infra permission_denied_def git_succeeds_def report_def fmt_Println_def
        del: filepath_Join.simps)
qed

subsection \<open>The source of a target\<close>

text \<open>
  C7. For a target whose source is neither \<open>github\<close> nor \<open>bitbucket\<close>, \<open>BackupTarget\<close>
  returns the error of an unrecognized source type, whose text contains the value of the
  source; no HTTP request is made and no command is run.
\<close>

theorem unrecognized_source_is_an_error:
  assumes "index_str t ''source'' \<noteq> ''github''" and "index_str t ''source'' \<noteq> ''bitbucket''"
  shows "fst (BackupTarget net g t backupDirectory w) = Some (Not_recognized (index_str t ''source'')) \<and>
         requests (snd (BackupTarget net g t backupDirectory w)) = requests w \<and>
         commands (snd (BackupTarget net g t backupDirectory w)) = commands w \<and>
         (\<exists>m. message (Not_recognized (index_str t ''source'')) = Some m \<and>
              sublist (index_str t ''source'') m)"
proof -
  have "sublist (index_str t ''source'')
          ([dq] @ index_str t ''source'' @ [dq] @ '' is not a recognized source type'')"
    unfolding sublist_def by blast
  with assms show ?thesis
    by (simp add: BackupTarget_def Let_def log_Printf_fields)
qed

theorem unrecognized_source_is_an_error_witness:
  "index_str gitlab ''source'' \<noteq> ''github'' \<and> index_str gitlab ''source'' \<noteq> ''bitbucket'' \<and>
   fst (BackupTarget (answers JNull) git_succeeds gitlab ''/backups'' nothing_yet) =
     Some (Not_recognized ''gitlab'') \<and>
   requests (snd (BackupTarget (answers JNull) git_succeeds gitlab ''/backups'' nothing_yet)) = [] \<and>
   commands (snd (BackupTarget (answers JNull) git_succeeds gitlab ''/backups'' nothing_yet)) = [] \<and>
   message (Not_recognized ''gitlab'') =
     Some ([dq] @ ''gitlab'' @ [dq] @ '' is not a recognized source type'')"
proof -
  have a: "index_str gitlab ''source'' \<noteq> ''github''"
    and b: "index_str gitlab ''source'' \<noteq> ''bitbucket''"
    and c: "index_str gitlab ''source'' = ''gitlab''"
    by (simp_all add: index_str_def gitlab_def)
  from unrecognized_source_is_an_error [OF a b, of "answers JNull" git_succeeds "''/backups''" nothing_yet] a b c
  show ?thesis by (simp add: nothing_yet_def)
qed

subsection \<open>Listing the repositories of BitBucket\<close>

text \<open>
  C9. For the target \<open>bb1\<close> (entity \<open>bbuser\<close>, password \<open>P\<close>) and a payload whose
  \<open>values\<close> hold the single item \<open>repoX\<close> with one clone link named \<open>https\<close>, the listing
  returns exactly one repository, named \<open>repoX\<close>, whose clone URL carries the password.
\<close>

theorem bitbucket_scenario:
  "fst (getBitBucketRepoList (answers (JObject [(''values'', JArray [repoX])])) bb1
         backupDirectory w) =
     ([\<lparr>name = ''repoX'', cloneURL = ''https://bbuser:P@bitbucket.org/bbuser/repoX.git''\<rparr>],
      None)"
  by (simp add: getBitBucketRepoList_def http_Get_def answers_def lookup_def repoX_def
      bitbucket_item_def clone_link_def bitbucket_repository_def bitbucket_embed_def
      index_str_def bb1_def zero_repository_def)

lemma those_map_all:
  "those (map f xs) = Some ys \<Longrightarrow> ys = map (the \<circ> f) xs \<and> (\<forall>x\<in>set xs. f x \<noteq> None)"
proof (induction xs arbitrary: ys)
  case Nil
  then show ?case by simp
next
  case (Cons x xs)
  then show ?case by (auto split: option.splits)
qed

lemma lookup_map_values:
  "lookup (map (\<lambda>(k, v). (k, f v)) m) k = map_option f (lookup m k)"
proof -
  have "rev (map (\<lambda>(k, v). (k, f v)) m) = map (\<lambda>(k, v). (k, f v)) (rev m)"
    by (rule rev_map)
  then show ?thesis by (simp only: lookup_def map_of_map comp_def)
qed

lemma unmarshal_string_member_map:
  assumes "those (map unmarshal_string_member m) = Some l"
  shows "l = map (\<lambda>(k, v). (k, the (unmarshal_string_value v))) m"
    and "\<forall>(k, v)\<in>set m. unmarshal_string_value v \<noteq> None"
proof -
  from those_map_all [OF assms]
  have a: "l = map (the \<circ> unmarshal_string_member) m"
    and b: "\<forall>x\<in>set m. unmarshal_string_member x \<noteq> None" by simp_all
  from b show "\<forall>(k, v)\<in>set m. unmarshal_string_value v \<noteq> None" by auto
  with a show "l = map (\<lambda>(k, v). (k, the (unmarshal_string_value v))) m" by auto
qed

lemma decoded_https_name:
  assumes "those (map unmarshal_string_member m) = Some l"
    and "index_str (lookup l) ''name'' = ''https''"
  shows "lookup m ''name'' = Some (JString ''https'')"
proof -
  from unmarshal_string_member_map [OF assms(1)]
  have l: "l = map (\<lambda>(k, v). (k, the (unmarshal_string_value v))) m"
    and ok: "\<forall>(k, v)\<in>set m. unmarshal_string_value v \<noteq> None" by simp_all
  have "lookup l ''name'' = map_option (\<lambda>v. the (unmarshal_string_value v)) (lookup m ''name'')"
    unfolding l by (rule lookup_map_values)
  with assms(2) obtain v where v: "lookup m ''name'' = Some v"
    and h: "the (unmarshal_string_value v) = ''https''"
    by (cases "lookup m ''name''") (auto simp: index_str_def)
  from v have "(''name'', v) \<in> set m"
    by (auto simp: lookup_def dest: map_of_SomeD)
  with ok have "unmarshal_string_value v \<noteq> None" by auto
  with h have "v = JString ''https''" by (cases v) auto
  with v show ?thesis by simp
qed

lemma decoded_links_no_https:
  assumes "unmarshal_string_map_slice (Some (JArray entries)) = Some cloneLinks"
    and "\<forall>m. JObject m \<in> set entries \<longrightarrow> lookup m ''name'' \<noteq> Some (JString ''https'')"
  shows "\<forall>l\<in>set cloneLinks. index_str (lookup l) ''name'' \<noteq> ''https''"
proof
  fix l assume "l \<in> set cloneLinks"
  from assms(1) have "those (map unmarshal_string_map_value entries) = Some cloneLinks" by simp
  from those_map_all [OF this] \<open>l \<in> set cloneLinks\<close>
  obtain entry where e: "entry \<in> set entries" and d: "unmarshal_string_map_value entry = Some l"
    by auto
  show "index_str (lookup l) ''name'' \<noteq> ''https''"
  proof (cases entry)
    case JNull
    with d show ?thesis by (simp add: index_str_def lookup_def)
  next
    case (JObject m)
    with d have "those (map unmarshal_string_member m) = Some l" by simp
    from decoded_https_name [OF this] assms(2) e JObject show ?thesis by blast
  qed (use d in simp_all)
qed

lemma decoded_items_member:
  assumes "unmarshal_map_slice (Some (JArray items)) = Some data"
    and "JObject item \<in> set items"
  shows "item \<in> set data"
proof -
  from assms(1) have "those (map unmarshal_map_value items) = Some data" by simp
  from those_map_all [OF this] have "data = map (the \<circ> unmarshal_map_value) items" by simp
  with assms(2) show ?thesis by force
qed

text \<open>
  C3. When an item of the \<open>values\<close> of a BitBucket payload has a \<open>links.clone\<close> array
  without an entry whose name is \<open>https\<close>, the whole listing fails: it returns an error
  and no repository, whatever the other items are.
\<close>

theorem bitbucket_item_without_https_fails_listing:
  assumes "net (bitbucket_requestURL t) = Body (Some (JObject envelope))"
    and "lookup envelope ''values'' = Some (JArray items)"
    and "JObject item \<in> set items"
    and "lookup item ''links'' = Some (JObject links)"
    and "lookup links ''clone'' = Some (JArray entries)"
    and "\<forall>m. JObject m \<in> set entries \<longrightarrow> lookup m ''name'' \<noteq> Some (JString ''https'')"
  shows "\<exists>e. fst (getBitBucketRepoList net t backupDirectory w) = ([], Some e)"
proof (cases "unmarshal_map_slice (Some (JArray items))")
  case None
  with assms(1,2) show ?thesis
    by (simp add: getBitBucketRepoList_def http_Get_def del: unmarshal_map_slice.simps)
next
  case (Some data)
  have item: "item \<in> set data" using Some assms(3) by (rule decoded_items_member)
  have "\<exists>e. bitbucket_repository t item = Inl e"
  proof (cases "unmarshal_string_map_slice (Some (JArray entries))")
    case None
    with assms(4,5) show ?thesis
      by (simp add: bitbucket_repository_def del: unmarshal_string_map_slice.simps
          split: option.splits)
  next
    case (Some cloneLinks)
    from decoded_links_no_https [OF Some assms(6)] assms(4,5) Some
    show ?thesis
      by (intro bitbucket_repository_no_https [of item links cloneLinks]) simp_all
  qed
  then obtain e0 where "bitbucket_repository t item = Inl e0" ..
  from bitbucket_loop_fails [OF item this]
  obtain e where "bitbucket_loop t 0 data (replicate (length data) zero_repository) = ([], Some e)"
    by blast
  moreover have "fst (getBitBucketRepoList net t backupDirectory w) =
      bitbucket_loop t 0 data (replicate (length data) zero_repository)"
  proof (rule getBitBucketRepoList_body [where net = net and t = t, OF assms(1)])
    show "unmarshal_map (Some (JObject envelope)) = Some envelope" by simp
    show "unmarshal_map_slice (lookup envelope ''values'') = Some data"
      using assms(2) Some by simp
  qed
  ultimately show ?thesis by simp
qed

theorem bitbucket_item_without_https_fails_listing_witness:
  "fst (getBitBucketRepoList (answers (JObject [(''values'', JArray [repoX, repoY])])) bb1
     ''/backups'' nothing_yet) =
   ([], Some (No_https_url [[(''name'', ''ssh''), (''href'', ''ssh://git@bitbucket.org/bbuser/repoY.git'')]]))"
proof -
  let ?top = "[(''values'', JArray [repoX, repoY])]"
  let ?item = "[(''name'', JString ''repoY''), (''links'', JObject [(''clone'',
      JArray [clone_link ''ssh'' ''ssh://git@bitbucket.org/bbuser/repoY.git''])])]"
  have 1: "answers (JObject ?top) (bitbucket_requestURL bb1) = Body (Some (JObject ?top))"
    by (simp add: answers_def)
  have 2: "lookup ?top ''values'' = Some (JArray [repoX, repoY])" by (simp add: lookup_def)
  have 3: "JObject ?item \<in> set [repoX, repoY]" by (simp add: repoY_def bitbucket_item_def)
  have 4: "lookup ?item ''links'' = Some (JObject [(''clone'',
      JArray [clone_link ''ssh'' ''ssh://git@bitbucket.org/bbuser/repoY.git''])])"
    by (simp add: lookup_def)
  have 5: "lookup [(''clone'', JArray [clone_link ''ssh'' ''ssh://git@bitbucket.org/bbuser/repoY.git''])] ''clone''
      = Some (JArray [clone_link ''ssh'' ''ssh://git@bitbucket.org/bbuser/repoY.git''])"
    by (simp add: lookup_def)
  have 6: "\<forall>m. JObject m \<in> set [clone_link ''ssh'' ''ssh://git@bitbucket.org/bbuser/repoY.git'']
      \<longrightarrow> lookup m ''name'' \<noteq> Some (JString ''https'')"
    by (simp add: clone_link_def lookup_def)
  from bitbucket_item_without_https_fails_listing
    [where net = "answers (JObject ?top)" and t = bb1 and backupDirectory = "''/backups''"
       and w = nothing_yet, OF 1 2 3 4 5 6]
  obtain e where e: "fst (getBitBucketRepoList (answers (JObject ?top)) bb1 ''/backups'' nothing_yet)
      = ([], Some e)" ..
  moreover have "snd (fst (getBitBucketRepoList (answers (JObject ?top)) bb1 ''/backups'' nothing_yet)) =
     Some (No_https_url [[(''name'', ''ssh''), (''href'', ''ssh://git@bitbucket.org/bbuser/repoY.git'')]])"
    by (simp add: getBitBucketRepoList_def http_Get_def answers_def lookup_def repoX_def repoY_def
      bitbucket_item_def clone_link_def bitbucket_repository_def bitbucket_embed_def
      index_str_def bb1_def zero_repository_def)
  ultimately show ?thesis by simp
qed

lemma getBitBucketRepoList_no_envelope:
  "net (bitbucket_requestURL t) = Body contents \<Longrightarrow> unmarshal_map contents = None \<Longrightarrow>
   fst (getBitBucketRepoList net t d w) = ([], Some Failed_parse)"
  by (simp add: getBitBucketRepoList_def http_Get_def)

lemma getBitBucketRepoList_no_values:
  "net (bitbucket_requestURL t) = Body contents \<Longrightarrow> unmarshal_map contents = Some metadata \<Longrightarrow>
   unmarshal_map_slice (lookup metadata ''values'') = None \<Longrightarrow>
   fst (getBitBucketRepoList net t d w) = ([], Some Failed_parse)"
  by (simp add: getBitBucketRepoList_def http_Get_def)

lemma getBitBucketRepoList_item_fails:
  assumes "net (bitbucket_requestURL t) = Body contents"
    and "unmarshal_map contents = Some metadata"
    and "unmarshal_map_slice (lookup metadata ''values'') = Some data"
    and "item \<in> set data" and "bitbucket_repository t item = Inl e0"
  shows "\<exists>e. fst (getBitBucketRepoList net t d w) = ([], Some e)"
  using getBitBucketRepoList_body [where net = net and t = t, OF assms(1,2,3), of d w]
    bitbucket_loop_fails [OF assms(4,5), of 0 "replicate (length data) zero_repository"]
  by simp

lemma backup_each_commands_nil: "commands (backup_each g t d [] w) = commands w"
  by simp

lemma BackupTarget_error_commands:
  "fst (BackupTarget net g t d w) \<noteq> None \<Longrightarrow>
   commands (snd (BackupTarget net g t d w)) = commands w"
proof -
  let ?w0 = "log_Printf (''Backing up target '' @ [dq] @ index_str t ''name'' @ [dq]) w"
  have gh: "commands (snd (getGitHubRepoList net t d ?w0)) = commands w"
    by (simp add: getGitHubRepoList_world log_Printf_fields)
  have bb: "commands (snd (getBitBucketRepoList net t d ?w0)) = commands w"
    by (simp add: getBitBucketRepoList_world log_Printf_fields)
  assume "fst (BackupTarget net g t d w) \<noteq> None"
  then show ?thesis
    using gh bb
    by (auto simp: BackupTarget_def Let_def log_Printf_fields
        split: prod.splits option.splits if_splits)
qed

text \<open>
  C8. Whenever the BitBucket listing returns an error, the list it returns is empty. The
  errors are: the body is not an object, \<open>values\<close> is not an array of objects, or the
  body of the loop fails at some item (name, links, clone links, no \<open>https\<close> link), at
  whatever position, so that the repositories of the items before it are dropped.
  \<open>BackupTarget\<close> then runs no command.
\<close>

theorem bitbucket_failure_returns_no_partial_list:
  "(\<forall>rs e. fst (getBitBucketRepoList net t backupDirectory w) = (rs, Some e) \<longrightarrow> rs = []) \<and>
   (net (bitbucket_requestURL t) = Body contents \<longrightarrow>
      (unmarshal_map contents = None \<longrightarrow>
         fst (getBitBucketRepoList net t backupDirectory w) = ([], Some Failed_parse)) \<and>
      (\<forall>metadata. unmarshal_map contents = Some metadata \<longrightarrow>
         (unmarshal_map_slice (lookup metadata ''values'') = None \<longrightarrow>
            fst (getBitBucketRepoList net t backupDirectory w) = ([], Some Failed_parse)) \<and>
         (\<forall>data item e0. unmarshal_map_slice (lookup metadata ''values'') = Some data \<longrightarrow>
            item \<in> set data \<longrightarrow> bitbucket_repository t item = Inl e0 \<longrightarrow>
            (\<exists>e. fst (getBitBucketRepoList net t backupDirectory w) = ([], Some e))))) \<and>
   (fst (BackupTarget net g t backupDirectory w) \<noteq> None \<longrightarrow>
      commands (snd (BackupTarget net g t backupDirectory w)) = commands w)"
proof (intro conjI allI impI)
  fix rs e assume "fst (getBitBucketRepoList net t backupDirectory w) = (rs, Some e)"
  then show "rs = []" by (rule getBitBucketRepoList_error)
next
  assume "net (bitbucket_requestURL t) = Body contents" "unmarshal_map contents = None"
  then show "fst (getBitBucketRepoList net t backupDirectory w) = ([], Some Failed_parse)"
    by (rule getBitBucketRepoList_no_envelope)
next
  fix metadata
  assume "net (bitbucket_requestURL t) = Body contents" "unmarshal_map contents = Some metadata"
    "unmarshal_map_slice (lookup metadata ''values'') = None"
  then show "fst (getBitBucketRepoList net t backupDirectory w) = ([], Some Failed_parse)"
    by (rule getBitBucketRepoList_no_values)
next
  fix metadata data item e0
  assume "net (bitbucket_requestURL t) = Body contents" "unmarshal_map contents = Some metadata"
    "unmarshal_map_slice (lookup metadata ''values'') = Some data"
    "item \<in> set data" "bitbucket_repository t item = Inl e0"
  then show "\<exists>e. fst (getBitBucketRepoList net t backupDirectory w) = ([], Some e)"
    by (rule getBitBucketRepoList_item_fails)
next
  assume "fst (BackupTarget net g t backupDirectory w) \<noteq> None"
  then show "commands (snd (BackupTarget net g t backupDirectory w)) = commands w"
    by (rule BackupTarget_error_commands)
qed


lemma bb1_fields:
  "index_str bb1 ''name'' = ''bb1''" "index_str bb1 ''source'' = ''bitbucket''"
  "index_str bb1 ''entity'' = ''bbuser''" "index_str bb1 ''password'' = ''P''"
  by (simp_all add: index_str_def bb1_def)

lemma index_str_lookup:
  "index_str (lookup m) k = (case lookup m k of None \<Rightarrow> [] | Some v \<Rightarrow> v)"
  by (simp add: index_str_def)

lemma acme_fields:
  "index_str acme ''name'' = ''acme''" "index_str acme ''source'' = ''github''"
  "index_str acme ''type'' = ''orgs''" "index_str acme ''entity'' = ''acme-co''"
  "index_str acme ''token'' = ''T''"
  by (simp_all add: index_str_def acme_def)

theorem bitbucket_failure_returns_no_partial_list_witness:
  "bitbucket_repository bb1
     [(''name'', JString ''repoX''), (''links'', JObject [(''clone'',
        JArray [clone_link ''https'' ''https://bbuser@bitbucket.org/bbuser/repoX.git''])])] =
     Inr \<lparr>name = ''repoX'', cloneURL = ''https://bbuser:P@bitbucket.org/bbuser/repoX.git''\<rparr> \<and>
   fst (getBitBucketRepoList (answers (JObject [(''values'', JArray [repoX, nameless])])) bb1
     ''/backups'' nothing_yet) = ([], Some Failed_parse) \<and>
   fst (BackupTarget (answers (JObject [(''values'', JArray [repoX, nameless])])) git_succeeds bb1
     ''/backups'' nothing_yet) = Some Failed_parse \<and>
   commands (snd (BackupTarget (answers (JObject [(''values'', JArray [repoX, nameless])]))
     git_succeeds bb1 ''/backups'' nothing_yet)) = []"
proof -
  let ?net = "answers (JObject [(''values'', JArray [repoX, nameless])])"
  note T = bitbucket_failure_returns_no_partial_list
    [where net = ?net and t = bb1 and backupDirectory = "''/backups''" and w = nothing_yet
       and g = git_succeeds]
  have first: "bitbucket_repository bb1
     [(''name'', JString ''repoX''), (''links'', JObject [(''clone'',
        JArray [clone_link ''https'' ''https://bbuser@bitbucket.org/bbuser/repoX.git''])])] =
     Inr \<lparr>name = ''repoX'', cloneURL = ''https://bbuser:P@bitbucket.org/bbuser/repoX.git''\<rparr>"
    by (simp add: bitbucket_repository_def lookup_def clone_link_def bitbucket_embed_def
        bb1_fields index_str_lookup)
  have err: "snd (fst (getBitBucketRepoList ?net bb1 ''/backups'' nothing_yet)) = Some Failed_parse"
    by (simp add: getBitBucketRepoList_def http_Get_def answers_def lookup_def repoX_def
        nameless_def bitbucket_item_def clone_link_def bitbucket_repository_def
        bitbucket_embed_def bb1_fields index_str_lookup zero_repository_def)
  from T have "\<forall>rs e. fst (getBitBucketRepoList ?net bb1 ''/backups'' nothing_yet) = (rs, Some e)
      \<longrightarrow> rs = []" by (rule conjunct1)
  with err have listing: "fst (getBitBucketRepoList ?net bb1 ''/backups'' nothing_yet) =
      ([], Some Failed_parse)"
    by (cases "fst (getBitBucketRepoList ?net bb1 ''/backups'' nothing_yet)") simp
  have target: "fst (BackupTarget ?net git_succeeds bb1 ''/backups'' nothing_yet) = Some Failed_parse"
  proof -
    let ?w0 = "log_Printf (''Backing up target '' @ [dq] @ index_str bb1 ''name'' @ [dq]) nothing_yet"
    have "snd (fst (getBitBucketRepoList ?net bb1 ''/backups'' ?w0)) = Some Failed_parse"
      by (simp add: getBitBucketRepoList_def http_Get_def answers_def lookup_def repoX_def
          nameless_def bitbucket_item_def clone_link_def bitbucket_repository_def
          bitbucket_embed_def bb1_fields index_str_lookup zero_repository_def)
    then show ?thesis
      by (auto simp: BackupTarget_def Let_def bb1_fields split: prod.splits option.splits)
  qed
  from T have "fst (BackupTarget ?net git_succeeds bb1 ''/backups'' nothing_yet) \<noteq> None \<longrightarrow>
      commands (snd (BackupTarget ?net git_succeeds bb1 ''/backups'' nothing_yet)) =
        commands nothing_yet" by (rule conjunct2 [THEN conjunct2])
  with target have "commands (snd (BackupTarget ?net git_succeeds bb1 ''/backups'' nothing_yet)) = []"
    by (simp add: nothing_yet_def)
  with first listing target show ?thesis by simp
qed

subsection \<open>Listing the repositories of GitHub\<close>









subsection \<open>Putting the credentials into a clone URL\<close>

text \<open>
  C5, as the code has it. Both listings put the credentials in with \<open>strings.Replace\<close>,
  which looks for the unauthenticated prefix (\<open>https://\<close> for GitHub,
  \<open>https://<entity>@\<close> for BitBucket) anywhere in the URL. A URL that does not contain it
  is returned unchanged; in a URL that contains it, the first occurrence, at the beginning
  or not, is replaced by the prefix with the credentials.
\<close>

theorem embedding_replaces_first_occurrence:
  "(\<not> sublist ''https://'' url \<longrightarrow> github_embed t url = url) \<and>
   (sublist ''https://'' url \<longrightarrow>
      (\<exists>ps ss. url = ps @ ''https://'' @ ss \<and>
         (\<forall>ps' ss'. url = ps' @ ''https://'' @ ss' \<longrightarrow> length ps \<le> length ps') \<and>
         github_embed t url =
           ps @ (''https://'' @ index_str t ''entity'' @ '':'' @ index_str t ''token'' @ ''@'') @ ss)) \<and>
   (\<not> sublist (''https://'' @ index_str t ''entity'' @ ''@'') url \<longrightarrow> bitbucket_embed t url = url) \<and>
   (sublist (''https://'' @ index_str t ''entity'' @ ''@'') url \<longrightarrow>
      (\<exists>ps ss. url = ps @ (''https://'' @ index_str t ''entity'' @ ''@'') @ ss \<and>
         (\<forall>ps' ss'. url = ps' @ (''https://'' @ index_str t ''entity'' @ ''@'') @ ss' \<longrightarrow>
            length ps \<le> length ps') \<and>
         bitbucket_embed t url =
           ps @ (''https://'' @ index_str t ''entity'' @ '':'' @ index_str t ''password'' @ ''@'')
              @ ss))"
proof (intro conjI impI)
  assume "\<not> sublist ''https://'' url"
  then show "github_embed t url = url"
    unfolding github_embed_def by (rule replace_absent)
next
  assume "sublist ''https://'' url"
  from replace_first [OF this]
  show "\<exists>ps ss. url = ps @ ''https://'' @ ss \<and>
         (\<forall>ps' ss'. url = ps' @ ''https://'' @ ss' \<longrightarrow> length ps \<le> length ps') \<and>
         github_embed t url =
           ps @ (''https://'' @ index_str t ''entity'' @ '':'' @ index_str t ''token'' @ ''@'') @ ss"
    unfolding github_embed_def by blast
next
  assume "\<not> sublist (''https://'' @ index_str t ''entity'' @ ''@'') url"
  then show "bitbucket_embed t url = url"
    unfolding bitbucket_embed_def by (rule replace_absent)
next
  assume "sublist (''https://'' @ index_str t ''entity'' @ ''@'') url"
  from replace_first [OF this]
  show "\<exists>ps ss. url = ps @ (''https://'' @ index_str t ''entity'' @ ''@'') @ ss \<and>
         (\<forall>ps' ss'. url = ps' @ (''https://'' @ index_str t ''entity'' @ ''@'') @ ss' \<longrightarrow>
            length ps \<le> length ps') \<and>
         bitbucket_embed t url =
           ps @ (''https://'' @ index_str t ''entity'' @ '':'' @ index_str t ''password'' @ ''@'')
              @ ss"
    unfolding bitbucket_embed_def by blast
qed

theorem embedding_replaces_first_occurrence_witness:
  "\<not> sublist ''https://'' ''ssh://git@github.com/acme-co/infra.git'' \<and>
   github_embed acme ''ssh://git@github.com/acme-co/infra.git'' =
     ''ssh://git@github.com/acme-co/infra.git'' \<and>
   sublist ''https://'' ''https://github.com/acme-co/infra.git'' \<and>
   github_embed acme ''https://github.com/acme-co/infra.git'' =
     ''https://acme-co:T@github.com/acme-co/infra.git'' \<and>
   \<not> sublist (''https://'' @ index_str bb1 ''entity'' @ ''@'')
       ''https://bitbucket.org/bbuser/repoX.git'' \<and>
   bitbucket_embed bb1 ''https://bitbucket.org/bbuser/repoX.git'' =
     ''https://bitbucket.org/bbuser/repoX.git'' \<and>
   sublist (''https://'' @ index_str bb1 ''entity'' @ ''@'')
       ''https://bbuser@bitbucket.org/bbuser/repoX.git'' \<and>
   bitbucket_embed bb1 ''https://bbuser@bitbucket.org/bbuser/repoX.git'' =
     ''https://bbuser:P@bitbucket.org/bbuser/repoX.git''"
proof -
  have a: "\<not> sublist ''https://'' ''ssh://git@github.com/acme-co/infra.git''"
    by (simp add: sublist_Cons_right)
  have b: "sublist ''https://'' ''https://github.com/acme-co/infra.git''"
    by (simp add: sublist_Cons_right)
  have c: "\<not> sublist (''https://'' @ index_str bb1 ''entity'' @ ''@'')
       ''https://bitbucket.org/bbuser/repoX.git''"
    by (simp add: sublist_Cons_right bb1_fields)
  have d: "sublist (''https://'' @ index_str bb1 ''entity'' @ ''@'')
       ''https://bbuser@bitbucket.org/bbuser/repoX.git''"
    by (simp add: sublist_Cons_right bb1_fields)
  note T1 = embedding_replaces_first_occurrence
    [where url = "''ssh://git@github.com/acme-co/infra.git''" and t = acme]
  note T2 = embedding_replaces_first_occurrence
    [where url = "''https://bitbucket.org/bbuser/repoX.git''" and t = bb1]
  from T1 a have 1: "github_embed acme ''ssh://git@github.com/acme-co/infra.git'' =
     ''ssh://git@github.com/acme-co/infra.git''" by blast
  from T2 c have 2: "bitbucket_embed bb1 ''https://bitbucket.org/bbuser/repoX.git'' =
     ''https://bitbucket.org/bbuser/repoX.git''" by blast
  have 3: "github_embed acme ''https://github.com/acme-co/infra.git'' =
     ''https://acme-co:T@github.com/acme-co/infra.git''"
    by (simp add: github_embed_def acme_fields)
  have 4: "bitbucket_embed bb1 ''https://bbuser@bitbucket.org/bbuser/repoX.git'' =
     ''https://bbuser:P@bitbucket.org/bbuser/repoX.git''"
    by (simp add: bitbucket_embed_def bb1_fields)
  from a b c d 1 2 3 4 show ?thesis by blast
qed

text \<open>
  A clone URL that does not begin with \<open>https://\<close> but contains it is changed: the
  credentials are put in the middle of it.
\<close>

theorem embedding_inside_the_url_counterexample:
  "\<not> prefix ''https://'' ''git+https://github.com/acme-co/infra.git'' \<and>
   fst (getGitHubRepoList
          (answers (JArray [JObject [(''name'', JString ''infra''),
             (''clone_url'', JString ''git+https://github.com/acme-co/infra.git'')]]))
          acme ''/backups'' nothing_yet) =
     ([\<lparr>name = ''infra'', cloneURL = ''git+https://acme-co:T@github.com/acme-co/infra.git''\<rparr>],
      None)"
  by (simp add: getGitHubRepoList_def http_Get_def answers_def github_repository_def
      github_embed_def lookup_def acme_fields zero_repository_def)

subsection \<open>The name of a repository in the mirror path\<close>

text \<open>
  C4, as the code has it. \<open>backupRepository\<close> checks no name: whatever the name of the
  repository is, it is the last element given to \<open>filepath.Join\<close>, and the one command that
  is run clones into the joined path or fetches in it.
\<close>

theorem repository_name_is_joined_as_given:
  "commands (backupRepository g targetName repoName url backupDirectory w) =
     commands w @
       [if fs w (filepath_Join [backupDirectory, targetName, repoName]) = Stat_not_exist
        then \<lparr>args = [''git'', ''clone'', ''--mirror'', url,
                      filepath_Join [backupDirectory, targetName, repoName]],
              dir = []\<rparr>
        else \<lparr>args = [''git'', ''fetch'', ''-p'', url],
              dir = filepath_Join [backupDirectory, targetName, repoName]\<rparr>]"
  by (simp add: backupRepository_commands clone_command_def fetch_command_def
      del: filepath_Join.simps)

text \<open>The name \<open>..\<close> is taken as it is: the mirror path is then the backup directory.\<close>

theorem repository_name_is_joined_as_given_witness:
  "commands (backupRepository git_succeeds ''acme'' ''..'' ''u'' ''/backups'' nothing_yet) =
     [\<lparr>args = [''git'', ''clone'', ''--mirror'', ''u'', ''/backups''], dir = []\<rparr>]"
proof -
  have j: "filepath_Join [''/backups'', ''acme'', ''..''] = ''/backups''"
    by (simp add: filepath_Clean_def split_slash_def Let_def)
  from repository_name_is_joined_as_given
    [of git_succeeds "''acme''" "''..''" "''u''" "''/backups''" nothing_yet]
  show ?thesis
    by (simp add: j nothing_yet_def del: filepath_Join.simps)
qed

text \<open>
  A name that climbs out of the backup directory is neither refused nor made harmless: the
  clone goes to \<open>/etc\<close>.
\<close>

theorem traversal_in_repository_name_counterexample:
  "filepath_Join [''/backups'', ''acme'', ''../../etc''] = ''/etc'' \<and>
   commands (backupRepository git_succeeds ''acme'' ''../../etc''
               ''https://acme-co:T@github.com/acme-co/infra.git'' ''/backups'' nothing_yet) =
     [\<lparr>args = [''git'', ''clone'', ''--mirror'',
                ''https://acme-co:T@github.com/acme-co/infra.git'', ''/etc''],
       dir = []\<rparr>]"
proof -
  have j: "filepath_Join [''/backups'', ''acme'', ''../../etc''] = ''/etc''"
    by (simp add: filepath_Clean_def split_slash_def Let_def)
  then show ?thesis
    by (simp add: backupRepository_commands clone_command_def nothing_yet_def
        del: filepath_Join.simps)
qed

end
